theory Spec2Isabelle
  imports Complex_Main
begin

section \<open>Shared vocabulary\<close>

text \<open>
  Python exceptions that the modelled functions can raise are values of \<open>py_error\<close>;
  a function that may raise returns \<open>py_error + 'a\<close> with \<open>Inl\<close> for the exception.
  Floating-point columns are modelled as \<open>real\<close>, Python integers as \<open>int\<close>.
\<close>

datatype py_error = ZeroDivisionError | ValueError | IndexError

text \<open>Rounding to the nearest integer, halves to the even one (\<open>np.round\<close>, \<open>rint\<close>).\<close>

definition np_round :: "real \<Rightarrow> int" where
  "np_round x =
     (let f = \<lfloor>x\<rfloor>; r = x - of_int f in
      if r < 1/2 then f
      else if r > 1/2 then f + 1
      else if even f then f else f + 1)"


section \<open>Spatial intersection (08_spatial_intersection.py)\<close>

text \<open>
  The geometry library (shapely) is a capability behind a narrow interface. Its operations
  are taken as a parameter: reprojection to the planar CRS, the \<open>intersects\<close> predicate,
  the \<open>intersection\<close> constructor, \<open>is_empty\<close>, the \<open>geom_type\<close> string and \<open>area\<close>.
\<close>

record 'g geometry_ops =
  to_crs :: "'g \<Rightarrow> 'g"
  intersects :: "'g \<Rightarrow> 'g \<Rightarrow> bool"
  intersection :: "'g \<Rightarrow> 'g \<Rightarrow> 'g"
  is_empty :: "'g \<Rightarrow> bool"
  geom_type :: "'g \<Rightarrow> string"
  area :: "'g \<Rightarrow> real"

text \<open>
  A row of the dining-zone table and of the taxi-hotspot table. The attribute columns are
  read with \<open>Series.get(key, default)\<close>, so a missing column is \<open>None\<close>.
\<close>

record 'g dining_zone =
  dz_cluster_id :: "int option"
  dz_n_restaurants :: "int option"
  dz_avg_rating :: "real option"
  dz_geometry :: 'g

record 'g taxi_zone =
  tz_hotspot_id :: "int option"
  tz_n_dropoffs :: "int option"
  tz_total_weight :: "real option"
  tz_geometry :: 'g

text \<open>The dictionary appended to \<open>intersections\<close> for one overlapping pair.\<close>

record 'g candidate =
  dining_cluster_id :: int
  taxi_hotspot_id :: int
  n_restaurants :: int
  n_taxi_dropoffs :: int
  taxi_weight :: real
  avg_rating :: "real option"
  dining_area_sqm :: real
  taxi_area_sqm :: real
  intersection_area_sqm :: real
  overlap_ratio_dining :: real
  overlap_ratio_taxi :: real
  min_overlap_ratio :: real
  geometry :: 'g

definition get_default :: "'a option \<Rightarrow> 'a \<Rightarrow> 'a" where
  "get_default v d = (case v of None \<Rightarrow> d | Some x \<Rightarrow> x)"

text \<open>
  The body of the inner loop for one pair \<open>(idx_d, dining_zone)\<close>, \<open>(idx_t, taxi_zone)\<close>
  of already reprojected rows: \<open>Inr None\<close> is a \<open>continue\<close> (or a failed
  \<open>intersects\<close> test), \<open>Inr (Some c)\<close> an appended dictionary. The two ratios divide
  Python floats, which raises \<open>ZeroDivisionError\<close> on a zero divisor.
\<close>

definition intersect_pair ::
  "'g geometry_ops \<Rightarrow> nat \<times> 'g dining_zone \<Rightarrow> nat \<times> 'g taxi_zone \<Rightarrow> py_error + 'g candidate option" where
  "intersect_pair ops d t =
     (let idx_d = fst d; dining_zone = snd d; idx_t = fst t; taxi_zone = snd t in
      if intersects ops (dz_geometry dining_zone) (tz_geometry taxi_zone) then
        (let intersection_geom = intersection ops (dz_geometry dining_zone) (tz_geometry taxi_zone) in
         if is_empty ops intersection_geom then Inr None
         else if geom_type ops intersection_geom \<notin> set [''Polygon'', ''MultiPolygon''] then Inr None
         else
           (let dining_area = area ops (dz_geometry dining_zone);
                taxi_area = area ops (tz_geometry taxi_zone);
                intersection_area = area ops intersection_geom in
            if dining_area = 0 then Inl ZeroDivisionError
            else if taxi_area = 0 then Inl ZeroDivisionError
            else
              (let overlap_ratio_dining = intersection_area / dining_area;
                   overlap_ratio_taxi = intersection_area / taxi_area;
                   min_overlap_ratio = min overlap_ratio_dining overlap_ratio_taxi in
               Inr (Some \<lparr>
                 dining_cluster_id = get_default (dz_cluster_id dining_zone) (int idx_d),
                 taxi_hotspot_id = get_default (tz_hotspot_id taxi_zone) (int idx_t),
                 n_restaurants = get_default (dz_n_restaurants dining_zone) 0,
                 n_taxi_dropoffs = get_default (tz_n_dropoffs taxi_zone) 0,
                 taxi_weight = get_default (tz_total_weight taxi_zone) 0,
                 avg_rating = dz_avg_rating dining_zone,
                 dining_area_sqm = dining_area,
                 taxi_area_sqm = taxi_area,
                 intersection_area_sqm = intersection_area,
                 overlap_ratio_dining = overlap_ratio_dining,
                 overlap_ratio_taxi = overlap_ratio_taxi,
                 min_overlap_ratio = min_overlap_ratio,
                 geometry = intersection_geom \<rparr>))))
      else Inr None)"

text \<open>The inner loop over the taxi rows, appending to \<open>intersections\<close>.\<close>

fun taxi_loop ::
  "'g geometry_ops \<Rightarrow> nat \<times> 'g dining_zone \<Rightarrow> (nat \<times> 'g taxi_zone) list \<Rightarrow>
   'g candidate list \<Rightarrow> py_error + 'g candidate list" where
  "taxi_loop ops d [] acc = Inr acc"
| "taxi_loop ops d (t # ts) acc =
     (case intersect_pair ops d t of
        Inl e \<Rightarrow> Inl e
      | Inr None \<Rightarrow> taxi_loop ops d ts acc
      | Inr (Some c) \<Rightarrow> taxi_loop ops d ts (acc @ [c]))"

text \<open>The outer loop over the dining rows.\<close>

fun dining_loop ::
  "'g geometry_ops \<Rightarrow> (nat \<times> 'g dining_zone) list \<Rightarrow> (nat \<times> 'g taxi_zone) list \<Rightarrow>
   'g candidate list \<Rightarrow> py_error + 'g candidate list" where
  "dining_loop ops [] ts acc = Inr acc"
| "dining_loop ops (d # ds) ts acc =
     (case taxi_loop ops d ts acc of
        Inl e \<Rightarrow> Inl e
      | Inr acc' \<Rightarrow> dining_loop ops ds ts acc')"

text \<open>
  \<open>compute_spatial_intersections\<close>: both tables are reprojected, every pair is visited in
  row order (\<open>iterrows\<close> over a default integer index), and the appended dictionaries
  become the rows of the result (an empty table when there are none).
\<close>

definition compute_spatial_intersections ::
  "'g geometry_ops \<Rightarrow> 'g dining_zone list \<Rightarrow> 'g taxi_zone list \<Rightarrow> py_error + 'g candidate list" where
  "compute_spatial_intersections ops gdf_dining gdf_taxi =
     (let gdf_d_proj = map (\<lambda>z. z\<lparr>dz_geometry := to_crs ops (dz_geometry z)\<rparr>) gdf_dining;
          gdf_t_proj = map (\<lambda>z. z\<lparr>tz_geometry := to_crs ops (tz_geometry z)\<rparr>) gdf_taxi in
      dining_loop ops (enumerate 0 gdf_d_proj) (enumerate 0 gdf_t_proj) [])"

text \<open>
  \<open>apply_filtering_criteria\<close>: an empty table is returned as it is; otherwise the two
  boolean masks are combined with \<open>&\<close> and the rows where both hold are kept, in order.
\<close>

definition apply_filtering_criteria ::
  "'g candidate list \<Rightarrow> real \<Rightarrow> real \<Rightarrow> 'g candidate list" where
  "apply_filtering_criteria gdf_intersections min_area_sqm min_overlap_ratio_thr =
     (if length gdf_intersections = 0 then gdf_intersections
      else
        (let mask_area = map (\<lambda>c. intersection_area_sqm c \<ge> min_area_sqm) gdf_intersections;
             mask_overlap = map (\<lambda>c. min_overlap_ratio c \<ge> min_overlap_ratio_thr) gdf_intersections in
         map fst (filter snd (zip gdf_intersections (map (\<lambda>(a, b). a \<and> b) (zip mask_area mask_overlap))))))"





subsection \<open>What the intersection step is specified to emit\<close>

text \<open>
  Following the specification's words: a pair overlaps in a two-dimensional region when the
  geometries intersect and the intersection is a non-empty Polygon or MultiPolygon.
\<close>

definition polygonal_overlap :: "'g geometry_ops \<Rightarrow> (nat \<times> 'g dining_zone) \<times> (nat \<times> 'g taxi_zone) \<Rightarrow> bool" where
  "polygonal_overlap ops p =
     (let a = dz_geometry (snd (fst p)); b = tz_geometry (snd (snd p)) in
      intersects ops a b \<and> \<not> is_empty ops (intersection ops a b) \<and>
      (geom_type ops (intersection ops a b) = ''Polygon'' \<or>
       geom_type ops (intersection ops a b) = ''MultiPolygon''))"

text \<open>
  Following the specification's words: the candidate of a pair carries the intersection
  area, the two source areas, the two one-directional ratios and their minimum, with both
  zones' aggregate attributes.
\<close>

definition specified_candidate :: "'g geometry_ops \<Rightarrow> (nat \<times> 'g dining_zone) \<times> (nat \<times> 'g taxi_zone) \<Rightarrow> 'g candidate" where
  "specified_candidate ops p =
     (let a = snd (fst p); b = snd (snd p);
          g = intersection ops (dz_geometry a) (tz_geometry b) in
      \<lparr> dining_cluster_id = get_default (dz_cluster_id a) (int (fst (fst p))),
        taxi_hotspot_id = get_default (tz_hotspot_id b) (int (fst (snd p))),
        n_restaurants = get_default (dz_n_restaurants a) 0,
        n_taxi_dropoffs = get_default (tz_n_dropoffs b) 0,
        taxi_weight = get_default (tz_total_weight b) 0,
        avg_rating = dz_avg_rating a,
        dining_area_sqm = area ops (dz_geometry a),
        taxi_area_sqm = area ops (tz_geometry b),
        intersection_area_sqm = area ops g,
        overlap_ratio_dining = area ops g / area ops (dz_geometry a),
        overlap_ratio_taxi = area ops g / area ops (tz_geometry b),
        min_overlap_ratio = min (area ops g / area ops (dz_geometry a)) (area ops g / area ops (tz_geometry b)),
        geometry = g \<rparr>)"

definition reproject_dining :: "'g geometry_ops \<Rightarrow> 'g dining_zone list \<Rightarrow> (nat \<times> 'g dining_zone) list" where
  "reproject_dining ops zs = enumerate 0 (map (\<lambda>z. z\<lparr>dz_geometry := to_crs ops (dz_geometry z)\<rparr>) zs)"

definition reproject_taxi :: "'g geometry_ops \<Rightarrow> 'g taxi_zone list \<Rightarrow> (nat \<times> 'g taxi_zone) list" where
  "reproject_taxi ops zs = enumerate 0 (map (\<lambda>z. z\<lparr>tz_geometry := to_crs ops (tz_geometry z)\<rparr>) zs)"

subsection \<open>A concrete geometry: axis-parallel boxes\<close>

text \<open>
  One instance of the geometry interface, used to run the functions on concrete zones:
  closed axis-parallel boxes \<open>Box xmin ymin xmax ymax\<close>. Two boxes that only share an
  edge or a corner intersect in a segment or a point, not in a polygon.
\<close>

datatype box = Empty | Box real real real real

fun box_intersection :: "box \<Rightarrow> box \<Rightarrow> box" where
  "box_intersection (Box x1 y1 x2 y2) (Box u1 v1 u2 v2) =
     (if max x1 u1 \<le> min x2 u2 \<and> max y1 v1 \<le> min y2 v2
      then Box (max x1 u1) (max y1 v1) (min x2 u2) (min y2 v2) else Empty)"
| "box_intersection _ _ = Empty"

fun box_area :: "box \<Rightarrow> real" where
  "box_area Empty = 0"
| "box_area (Box x1 y1 x2 y2) = (x2 - x1) * (y2 - y1)"

fun box_geom_type :: "box \<Rightarrow> string" where
  "box_geom_type Empty = ''GeometryCollection''"
| "box_geom_type (Box x1 y1 x2 y2) =
     (if x1 < x2 \<and> y1 < y2 then ''Polygon''
      else if x1 = x2 \<and> y1 = y2 then ''Point'' else ''LineString'')"

definition box_ops :: "box geometry_ops" where
  "box_ops = \<lparr> to_crs = (\<lambda>g. g),
               intersects = (\<lambda>a b. box_intersection a b \<noteq> Empty),
               intersection = box_intersection,
               is_empty = (\<lambda>g. g = Empty),
               geom_type = box_geom_type,
               area = box_area \<rparr>"

text \<open>
  The scenario of the specification: a dining zone of 20000 square metres with 40 venues
  and a taxi hotspot of 15000 square metres with total weight 500, overlapping in
  5000 square metres.
\<close>

definition scenario_dining :: "box dining_zone" where
  "scenario_dining = \<lparr> dz_cluster_id = Some 7, dz_n_restaurants = Some 40,
                        dz_avg_rating = Some 4.2, dz_geometry = Box 0 0 200 100 \<rparr>"

definition scenario_taxi :: "box taxi_zone" where
  "scenario_taxi = \<lparr> tz_hotspot_id = Some 3, tz_n_dropoffs = Some 450,
                      tz_total_weight = Some 500, tz_geometry = Box 150 0 300 100 \<rparr>"

definition scenario_candidate :: "box candidate" where
  "scenario_candidate =
     \<lparr> dining_cluster_id = 7, taxi_hotspot_id = 3, n_restaurants = 40, n_taxi_dropoffs = 450,
       taxi_weight = 500, avg_rating = Some 4.2, dining_area_sqm = 20000, taxi_area_sqm = 15000,
       intersection_area_sqm = 5000, overlap_ratio_dining = 1/4, overlap_ratio_taxi = 1/3,
       min_overlap_ratio = 1/4, geometry = Box 150 0 200 100 \<rparr>"

text \<open>A second dining zone that touches the scenario's taxi hotspot only along an edge.\<close>

definition edge_dining :: "box dining_zone" where
  "edge_dining = \<lparr> dz_cluster_id = Some 8, dz_n_restaurants = Some 12,
                    dz_avg_rating = None, dz_geometry = Box 300 0 400 100 \<rparr>"






section \<open>Restaurant deduplication (02_merge_restaurants.py)\<close>






subsection \<open>The deduplication rule as specified\<close>

definition euclid :: "real \<times> real \<Rightarrow> real \<times> real \<Rightarrow> real" where
  "euclid p q = sqrt ((fst p - fst q)\<^sup>2 + (snd p - snd q)\<^sup>2)"




subsection \<open>Concrete capabilities and tables\<close>













section \<open>Weighted taxi clustering (07_cluster_taxi_dropoffs.py)\<close>

text \<open>
  \<open>np.repeat(a, repeats, axis=0)\<close>: row \<open>i\<close> is repeated \<open>repeats[i]\<close> times in place;
  a negative count or a count vector of another length raises \<open>ValueError\<close>.
\<close>

definition np_repeat :: "'a list \<Rightarrow> int list \<Rightarrow> py_error + 'a list" where
  "np_repeat a repeats =
     (if length repeats \<noteq> length a \<or> (\<exists>n\<in>set repeats. n < 0) then Inl ValueError
      else Inr (concat (map (\<lambda>(x, n). replicate (nat n) x) (zip a repeats))))"

record taxi_row =
  dropoff_lon :: real
  dropoff_lat :: real
  weight :: real

text \<open>
  The two lines that turn the weight column into copy counts; they occur in
  \<open>prepare_weighted_coordinates\<close> and again in \<open>main\<close>.
\<close>

definition weights_rounded :: "real list \<Rightarrow> int list" where
  "weights_rounded weights =
     (let weights_rounded = map np_round weights in
      map (\<lambda>w. max w 1) weights_rounded)"

text \<open>
  \<open>prepare_weighted_coordinates\<close>: returns the expanded coordinates and the projected
  coordinates of the original points. \<open>project\<close> is the reprojection capability. The
  log line before the return divides \<open>len(coords_weighted)\<close> by
  \<open>len(coords_proj)\<close>, which raises \<open>ZeroDivisionError\<close> for an empty table.
\<close>

definition prepare_weighted_coordinates ::
  "(real \<times> real \<Rightarrow> real \<times> real) \<Rightarrow> taxi_row list \<Rightarrow>
   py_error + ((real \<times> real) list \<times> (real \<times> real) list)" where
  "prepare_weighted_coordinates project df =
     (let coords_proj = map (\<lambda>r. project (dropoff_lon r, dropoff_lat r)) df;
          weights = map weight df in
      case np_repeat coords_proj (weights_rounded weights) of
        Inl e \<Rightarrow> Inl e
      | Inr coords_weighted \<Rightarrow>
          if length coords_proj = 0 then Inl ZeroDivisionError
          else Inr (coords_weighted, coords_proj))"

text \<open>
  \<open>np.unique(label_group, return_counts=True)\<close>: the distinct values in ascending order
  and, for each, how often it occurs.
\<close>

definition np_unique_counts :: "int list \<Rightarrow> int list \<times> nat list" where
  "np_unique_counts label_group =
     (let unique = sort (remdups label_group) in
      (unique, map (count_list label_group) unique))"

text \<open>
  \<open>np.argmax\<close>: the position of the first occurrence of the maximum; an empty array
  raises \<open>ValueError\<close>.
\<close>

definition np_argmax :: "nat list \<Rightarrow> py_error + nat" where
  "np_argmax counts =
     (if counts = [] then Inl ValueError
      else Inr (length (takeWhile (\<lambda>c. c \<noteq> Max (set counts)) counts)))"

text \<open>
  The loop of \<open>main\<close> that maps the labels of the expanded points back to the original
  points: \<open>label_group = labels[idx:idx+weight]\<close>, then the most common label of the group.
\<close>

fun label_loop :: "int list \<Rightarrow> int list \<Rightarrow> nat \<Rightarrow> int list \<Rightarrow> py_error + int list" where
  "label_loop labels [] idx labels_original = Inr labels_original"
| "label_loop labels (wt # rest) idx labels_original =
     (let label_group = take (nat wt) (drop idx labels);
          unique = fst (np_unique_counts label_group);
          counts = snd (np_unique_counts label_group) in
      case np_argmax counts of
        Inl e \<Rightarrow> Inl e
      | Inr k \<Rightarrow>
          (let most_common = unique ! k in
           label_loop labels rest (idx + nat wt) (labels_original @ [most_common])))"

definition map_labels_to_original :: "int list \<Rightarrow> real list \<Rightarrow> py_error + int list" where
  "map_labels_to_original labels weights = label_loop labels (weights_rounded weights) 0 []"

subsection \<open>Label resolution as specified and as computed\<close>

text \<open>The duplicate groups: consecutive slices of the label array, one per original point.\<close>

fun chunks :: "'a list \<Rightarrow> nat list \<Rightarrow> 'a list list" where
  "chunks xs [] = []"
| "chunks xs (n # ns) = take n xs # chunks (drop n xs) ns"

text \<open>
  Following the specification's words: the majority label of a group, a tie going to the
  label encountered first in the group.
\<close>

definition first_encountered_majority :: "int list \<Rightarrow> int" where
  "first_encountered_majority g =
     hd (filter (\<lambda>l. count_list g l = Max (set (map (count_list g) g))) g)"

text \<open>
  What the code computes: a label of the group with the largest count that is the
  numerically smallest among the labels with that count.
\<close>

definition smallest_majority :: "int list \<Rightarrow> int \<Rightarrow> bool" where
  "smallest_majority g l \<longleftrightarrow>
     l \<in> set g \<and> (\<forall>l'\<in>set g. count_list g l' \<le> count_list g l) \<and>
     (\<forall>l'\<in>set g. count_list g l' = count_list g l \<longrightarrow> l \<le> l')"

section \<open>Validation metrics\<close>

text \<open>
  The dictionary returned by \<open>calculate_validation_metrics\<close>; the two scores are
  \<open>None\<close> when they are not computed.
\<close>

record metrics =
  silhouette_score :: "real option"
  davies_bouldin_index :: "real option"
  n_clusters :: int
  n_noise :: int
  n_total :: int
  pct_clustered :: real

definition noise :: int where
  "noise = - 1"

text \<open>
  The cluster statistics at the end of both variants of the function. The percentage
  divides two Python integers by \<open>len(labels)\<close>, which raises \<open>ZeroDivisionError\<close>
  for an empty label array.
\<close>

definition cluster_statistics :: "real option \<Rightarrow> real option \<Rightarrow> int list \<Rightarrow> py_error + metrics" where
  "cluster_statistics silhouette db_index labels =
     (let n_clusters = int (length (remdups labels)) - (if noise \<in> set labels then 1 else 0);
          n_noise = int (count_list labels noise);
          n_total = int (length labels) in
      if length labels = 0 then Inl ZeroDivisionError
      else Inr \<lparr> silhouette_score = silhouette, davies_bouldin_index = db_index,
                 n_clusters = n_clusters, n_noise = n_noise, n_total = n_total,
                 pct_clustered = real_of_int (int (length labels) - int (count_list labels noise))
                                   / real (length labels) * 100 \<rparr>)"

text \<open>\<open>coords[mask]\<close> and \<open>labels[mask]\<close> for \<open>mask = labels != -1\<close>.\<close>

definition mask_rows :: "'a list \<Rightarrow> int list \<Rightarrow> 'a list" where
  "mask_rows rows labels = map fst (filter (\<lambda>(r, l). l \<noteq> noise) (zip rows labels))"

text \<open>
  \<open>calculate_validation_metrics\<close> of 06_cluster_restaurants.py. The two scores are
  library capabilities (\<open>sil\<close>, \<open>db\<close>), which may raise. Indexing with a boolean mask
  of another length raises \<open>IndexError\<close>.
\<close>

definition calculate_validation_metrics ::
  "((real \<times> real) list \<Rightarrow> int list \<Rightarrow> py_error + real) \<Rightarrow>
   ((real \<times> real) list \<Rightarrow> int list \<Rightarrow> py_error + real) \<Rightarrow>
   (real \<times> real) list \<Rightarrow> int list \<Rightarrow> py_error + metrics" where
  "calculate_validation_metrics sil db coords labels =
     (if length coords \<noteq> length labels then Inl IndexError
      else
        (let coords_clustered = mask_rows coords labels;
             labels_clustered = mask_rows labels labels in
         if length (remdups labels_clustered) > 1 then
           (case sil coords_clustered labels_clustered of
              Inl e \<Rightarrow> Inl e
            | Inr silhouette \<Rightarrow>
                (case db coords_clustered labels_clustered of
                   Inl e \<Rightarrow> Inl e
                 | Inr db_index \<Rightarrow> cluster_statistics (Some silhouette) (Some db_index) labels))
         else cluster_statistics None None labels))"

text \<open>
  \<open>calculate_validation_metrics\<close> of 07_cluster_taxi_dropoffs.py. Above 100000 clustered
  points the scores are computed on \<open>np.random.choice(n, 100000, replace=False)\<close>.
  The function does not seed the generator: the generator state is an input, \<open>choice\<close>
  is the library's draw, returning the indices and the next state. An index outside the
  array raises \<open>IndexError\<close>.
\<close>

definition calculate_validation_metrics_taxi ::
  "('rng \<Rightarrow> nat \<Rightarrow> nat \<Rightarrow> nat list \<times> 'rng) \<Rightarrow>
   ((real \<times> real) list \<Rightarrow> int list \<Rightarrow> py_error + real) \<Rightarrow>
   ((real \<times> real) list \<Rightarrow> int list \<Rightarrow> py_error + real) \<Rightarrow>
   'rng \<Rightarrow> (real \<times> real) list \<Rightarrow> int list \<Rightarrow> py_error + (metrics \<times> 'rng)" where
  "calculate_validation_metrics_taxi choice sil db rng coords labels =
     (if length coords \<noteq> length labels then Inl IndexError
      else
        (let coords_clustered = mask_rows coords labels;
             labels_clustered = mask_rows labels labels in
         if length (remdups labels_clustered) > 1 then
           (if length coords_clustered > 100000 then
              (let indices = fst (choice rng (length coords_clustered) 100000);
                   rng' = snd (choice rng (length coords_clustered) 100000) in
               if \<exists>i\<in>set indices. i \<ge> length coords_clustered then Inl IndexError
               else
                 (let coords_sample = map (\<lambda>i. coords_clustered ! i) indices;
                      labels_sample = map (\<lambda>i. labels_clustered ! i) indices in
                  case sil coords_sample labels_sample of
                    Inl e \<Rightarrow> Inl e
                  | Inr silhouette \<Rightarrow>
                      (case db coords_sample labels_sample of
                         Inl e \<Rightarrow> Inl e
                       | Inr db_index \<Rightarrow>
                           (case cluster_statistics (Some silhouette) (Some db_index) labels of
                              Inl e \<Rightarrow> Inl e
                            | Inr m \<Rightarrow> Inr (m, rng')))))
            else
              (case sil coords_clustered labels_clustered of
                 Inl e \<Rightarrow> Inl e
               | Inr silhouette \<Rightarrow>
                   (case db coords_clustered labels_clustered of
                      Inl e \<Rightarrow> Inl e
                    | Inr db_index \<Rightarrow>
                        (case cluster_statistics (Some silhouette) (Some db_index) labels of
                           Inl e \<Rightarrow> Inl e
                         | Inr m \<Rightarrow> Inr (m, rng)))))
         else
           (case cluster_statistics None None labels of
              Inl e \<Rightarrow> Inl e
            | Inr m \<Rightarrow> Inr (m, rng))))"

section \<open>HDBSCANClustering.validate (analysis/clustering.py)\<close>

record validation_scores =
  vs_n_clusters :: int
  vs_n_noise :: int
  vs_silhouette_score :: "real option"
  vs_davies_bouldin_score :: "real option"
  vs_noise_ratio :: "real option"

text \<open>The attributes \<open>labels_\<close> and \<open>validation_scores_\<close> of the clusterer object, which \<open>validate\<close> reads and writes.\<close>

record clusterer_state =
  self_labels :: "int list option"
  self_validation_scores :: "validation_scores option"

text \<open>
  \<open>validate(self, X, labels=None)\<close>: with fewer than two clusters it returns early, with
  both scores \<open>None\<close> and without touching the object; otherwise it stores and returns
  the scores.
\<close>

definition validate ::
  "((real \<times> real) list \<Rightarrow> int list \<Rightarrow> py_error + real) \<Rightarrow>
   ((real \<times> real) list \<Rightarrow> int list \<Rightarrow> py_error + real) \<Rightarrow>
   clusterer_state \<Rightarrow> (real \<times> real) list \<Rightarrow> int list option \<Rightarrow>
   py_error + (validation_scores \<times> clusterer_state)" where
  "validate sil db self X labels_arg =
     (case (case labels_arg of None \<Rightarrow> self_labels self | Some l \<Rightarrow> Some l) of
        None \<Rightarrow> Inl ValueError
      | Some labels \<Rightarrow>
          if length X \<noteq> length labels then Inl IndexError
          else
            (let X_valid = mask_rows X labels;
                 labels_valid = mask_rows labels labels;
                 n_clusters = int (length (remdups labels_valid)) in
             if n_clusters < 2 then
               Inr (\<lparr> vs_n_clusters = n_clusters,
                      vs_n_noise = int (count_list labels noise),
                      vs_silhouette_score = None,
                      vs_davies_bouldin_score = None,
                      vs_noise_ratio = None \<rparr>, self)
             else
               (case sil X_valid labels_valid of
                  Inl e \<Rightarrow> Inl e
                | Inr sil_score \<Rightarrow>
                    (case db X_valid labels_valid of
                       Inl e \<Rightarrow> Inl e
                     | Inr db_score \<Rightarrow>
                         (let scores = \<lparr> vs_n_clusters = n_clusters,
                                         vs_n_noise = int (count_list labels noise),
                                         vs_silhouette_score = Some sil_score,
                                         vs_davies_bouldin_score = Some db_score,
                                         vs_noise_ratio = Some (real (count_list labels noise)
                                                                 / real (length labels)) \<rparr> in
                          Inr (scores, self\<lparr>self_validation_scores := Some scores\<rparr>))))))"

subsection \<open>The two scores as scikit-learn defines them\<close>

text \<open>
  The definitions of \<open>sklearn.metrics.silhouette_score\<close> (Euclidean metric) and
  \<open>davies_bouldin_score\<close>, in exact arithmetic, for running the validation on concrete
  data. Both raise \<open>ValueError\<close> unless the number of labels is between 2 and the
  number of samples minus 1.
\<close>

definition valid_number_of_labels :: "int list \<Rightarrow> bool" where
  "valid_number_of_labels labels \<longleftrightarrow>
     1 < length (remdups labels) \<and> length (remdups labels) < length labels"

definition cluster_points :: "((real \<times> real) \<times> int) list \<Rightarrow> int \<Rightarrow> (real \<times> real) list" where
  "cluster_points data l = map fst (filter (\<lambda>x. snd x = l) data)"

definition mean_distance :: "real \<times> real \<Rightarrow> (real \<times> real) list \<Rightarrow> real" where
  "mean_distance p ps = sum_list (map (\<lambda>q. euclid p q) ps) / real (length ps)"

text \<open>
  The silhouette coefficient of one sample: \<open>a\<close> is the mean distance to the other
  points of its cluster, \<open>b\<close> the least mean distance to the points of another cluster;
  the coefficient is \<open>(b - a) / max a b\<close>, and 0 for a cluster of one point or when
  both are 0.
\<close>

definition silhouette_sample :: "((real \<times> real) \<times> int) list \<Rightarrow> (real \<times> real) \<times> int \<Rightarrow> real" where
  "silhouette_sample data x =
     (let own = cluster_points data (snd x);
          others = filter (\<lambda>l. l \<noteq> snd x) (remdups (map snd data));
          a = sum_list (map (\<lambda>q. euclid (fst x) q) own) / real (length own - 1);
          b = Min (set (map (\<lambda>l. mean_distance (fst x) (cluster_points data l)) others)) in
      if length own = 1 then 0
      else if max a b = 0 then 0
      else (b - a) / max a b)"

definition sklearn_silhouette :: "(real \<times> real) list \<Rightarrow> int list \<Rightarrow> py_error + real" where
  "sklearn_silhouette X labels =
     (if \<not> valid_number_of_labels labels then Inl ValueError
      else Inr (sum_list (map (silhouette_sample (zip X labels)) (zip X labels))
                / real (length labels)))"

definition centroid :: "(real \<times> real) list \<Rightarrow> real \<times> real" where
  "centroid ps = (sum_list (map fst ps) / real (length ps), sum_list (map snd ps) / real (length ps))"

text \<open>
  The Davies-Bouldin index: for each cluster the largest ratio of the summed mean
  distances to the centroids over the distance of the centroids, averaged over the
  clusters; 0 when all clusters or all centroid distances vanish (within \<open>1e-8\<close>).
\<close>

definition sklearn_davies_bouldin :: "(real \<times> real) list \<Rightarrow> int list \<Rightarrow> py_error + real" where
  "sklearn_davies_bouldin X labels =
     (if \<not> valid_number_of_labels labels then Inl ValueError
      else
        (let data = zip X labels;
             ls = sort (remdups labels);
             centroids = map (\<lambda>l. centroid (cluster_points data l)) ls;
             intra = map (\<lambda>l. mean_distance (centroid (cluster_points data l))
                                  (cluster_points data l)) ls in
         if list_all (\<lambda>s. \<bar>s\<bar> \<le> 1 / 10 ^ 8) intra
            \<or> list_all (\<lambda>c. list_all (\<lambda>c'. euclid c c' \<le> 1 / 10 ^ 8) centroids) centroids
         then Inr 0
         else Inr (sum_list
                     (map (\<lambda>i. Max (set (map (\<lambda>j. if euclid (centroids ! i) (centroids ! j) = 0 then 0
                                                else (intra ! i + intra ! j)
                                                     / euclid (centroids ! i) (centroids ! j))
                                          [0..<length ls])))
                        [0..<length ls])
                   / real (length ls))))"

text \<open>
  Three drop-offs with weights 0.3, 1.5 and 2.5, in planar coordinates, for running the
  expansion.
\<close>

definition demo_dropoffs :: "taxi_row list" where
  "demo_dropoffs =
     [\<lparr> dropoff_lon = 0, dropoff_lat = 0, weight = 0.3 \<rparr>,
      \<lparr> dropoff_lon = 10, dropoff_lat = 0, weight = 1.5 \<rparr>,
      \<lparr> dropoff_lon = 20, dropoff_lat = 5, weight = 2.5 \<rparr>]"

text \<open>
  \<open>np.random.choice(n, k, replace=False)\<close> returns \<open>k\<close> distinct positions below \<open>n\<close>,
  and every such selection is a possible draw. The draw used to run the taxi variant
  beyond the sampling threshold returns the window of \<open>k\<close> consecutive positions that
  starts at the generator state, and advances the state. The input has 100001 clustered
  points in two clusters: 99998 points at the origin, and two points at \<open>(1, 0)\<close> and
  one at \<open>(3, 0)\<close> in the other cluster.
\<close>

definition window_choice :: "nat \<Rightarrow> nat \<Rightarrow> nat \<Rightarrow> nat list \<times> nat" where
  "window_choice rng n k = ([rng..<rng + k], Suc rng)"

definition big_labels :: "int list" where
  "big_labels = replicate 99998 0 @ [1, 1, 1]"

definition big_coords :: "(real \<times> real) list" where
  "big_coords = replicate 99998 (0, 0) @ [(1, 0), (1, 0), (3, 0)]"


text \<open>
  The two samples of that input which the windows starting at positions 0 and 1 select,
  as rows of a point and its label.
\<close>

definition first_window :: "((real \<times> real) \<times> int) list" where
  "first_window = replicate 99998 ((0, 0), 0) @ [((1, 0), 1), ((1, 0), 1)]"

definition second_window :: "((real \<times> real) \<times> int) list" where
  "second_window = replicate 99997 ((0, 0), 0) @ [((1, 0), 1), ((1, 0), 1), ((3, 0), 1)]"

section \<open>Rounding to binary64\<close>



















section \<open>Shared list facts\<close>

lemma takeWhile_stops:
  assumes "\<exists>x\<in>set xs. \<not> P x"
  shows "length (takeWhile P xs) < length xs \<and> \<not> P (xs ! length (takeWhile P xs))"
  using assms by (induction xs) auto

lemma takeWhile_before:
  assumes "j < length (takeWhile P xs)"
  shows "P (xs ! j)"
  using assms takeWhile_nth [OF assms] nth_mem [OF assms] set_takeWhileD by metis
section \<open>Filtering keeps a candidate exactly when both thresholds hold\<close>

lemma mask_filter:
  "map fst (filter snd (zip xs (map (\<lambda>(a, b). a \<and> b) (zip (map P xs) (map Q xs)))))
     = filter (\<lambda>c. P c \<and> Q c) xs"
  by (induction xs) auto

lemma apply_filtering_criteria_filter:
  "apply_filtering_criteria cs a r =
     filter (\<lambda>c. intersection_area_sqm c \<ge> a \<and> min_overlap_ratio c \<ge> r) cs"
proof (cases "length cs = 0")
  case True
  then show ?thesis by (simp add: apply_filtering_criteria_def)
next
  case False
  then show ?thesis
    unfolding apply_filtering_criteria_def Let_def
    by (simp only: mask_filter if_False)
qed

text \<open>
  C1. For every candidate table and every pair of thresholds, a candidate is in the
  filtered table if and only if it is in the input and both
  \<open>intersection_area_sqm \<ge> min_area_sqm\<close> and \<open>min_overlap_ratio \<ge> min_overlap_ratio\<close>
  hold (conjunction); nothing is reordered or duplicated. In particular a candidate with
  intersection area 5000 and minimum overlap ratio 0.25 is rejected under the thresholds
  10000 and 0.15, although it passes the overlap-ratio test.
\<close>

theorem filtering_is_conjunction:
  "(c \<in> set (apply_filtering_criteria cs min_area min_ratio) \<longleftrightarrow>
      c \<in> set cs \<and> intersection_area_sqm c \<ge> min_area \<and> min_overlap_ratio c \<ge> min_ratio)
   \<and> apply_filtering_criteria cs min_area min_ratio =
      filter (\<lambda>c. intersection_area_sqm c \<ge> min_area \<and> min_overlap_ratio c \<ge> min_ratio) cs
   \<and> (intersection_area_sqm x = 5000 \<and> min_overlap_ratio x = 0.25 \<longrightarrow>
        0.15 \<le> min_overlap_ratio x \<and> x \<notin> set (apply_filtering_criteria (ys @ [x] @ zs) 10000 0.15))"
  by (auto simp add: apply_filtering_criteria_filter)


theorem filtering_is_conjunction_witness:
  "(intersection_area_sqm scenario_candidate = 5000 \<and> min_overlap_ratio scenario_candidate = 0.25)
   \<and> 0.15 \<le> min_overlap_ratio scenario_candidate
   \<and> scenario_candidate \<notin> set (apply_filtering_criteria [scenario_candidate] 10000 0.15)"
proof -
  have h: "intersection_area_sqm scenario_candidate = 5000 \<and> min_overlap_ratio scenario_candidate = 0.25"
    by (simp add: scenario_candidate_def)
  from filtering_is_conjunction [where x = scenario_candidate and ys = "[]" and zs = "[]"] h
  have "0.15 \<le> min_overlap_ratio scenario_candidate \<and>
        scenario_candidate \<notin> set (apply_filtering_criteria ([] @ [scenario_candidate] @ []) 10000 0.15)"
    by blast
  with h show ?thesis by simp
qed

section \<open>The intersection engine emits exactly the polygonal overlaps\<close>

lemma intersect_pair_specified:
  assumes "polygonal_overlap ops (d, t) \<longrightarrow>
             area ops (dz_geometry (snd d)) \<noteq> 0 \<and> area ops (tz_geometry (snd t)) \<noteq> 0"
  shows "intersect_pair ops d t =
           Inr (if polygonal_overlap ops (d, t) then Some (specified_candidate ops (d, t)) else None)"
  using assms
  by (auto simp add: intersect_pair_def polygonal_overlap_def specified_candidate_def Let_def)

lemma taxi_loop_specified:
  assumes "\<forall>t\<in>set ts. polygonal_overlap ops (d, t) \<longrightarrow>
             area ops (dz_geometry (snd d)) \<noteq> 0 \<and> area ops (tz_geometry (snd t)) \<noteq> 0"
  shows "taxi_loop ops d ts acc =
           Inr (acc @ map (specified_candidate ops) (filter (polygonal_overlap ops) (map (Pair d) ts)))"
  using assms
proof (induction ts arbitrary: acc)
  case Nil
  show ?case by simp
next
  case (Cons t ts)
  have step: "intersect_pair ops d t =
      Inr (if polygonal_overlap ops (d, t) then Some (specified_candidate ops (d, t)) else None)"
    using Cons.prems by (intro intersect_pair_specified) simp
  have tl: "\<forall>t\<in>set ts. polygonal_overlap ops (d, t) \<longrightarrow>
             area ops (dz_geometry (snd d)) \<noteq> 0 \<and> area ops (tz_geometry (snd t)) \<noteq> 0"
    using Cons.prems by simp
  have rest: "\<And>acc'. taxi_loop ops d ts acc' =
      Inr (acc' @ map (specified_candidate ops) (filter (polygonal_overlap ops) (map (Pair d) ts)))"
    by (rule Cons.IH [OF tl])
  show ?case by (simp add: step rest)
qed

lemma dining_loop_specified:
  assumes "\<forall>d\<in>set ds. \<forall>t\<in>set ts. polygonal_overlap ops (d, t) \<longrightarrow>
             area ops (dz_geometry (snd d)) \<noteq> 0 \<and> area ops (tz_geometry (snd t)) \<noteq> 0"
  shows "dining_loop ops ds ts acc =
           Inr (acc @ map (specified_candidate ops) (filter (polygonal_overlap ops) (List.product ds ts)))"
  using assms
proof (induction ds arbitrary: acc)
  case Nil
  show ?case by simp
next
  case (Cons d ds)
  have row: "\<And>acc'. taxi_loop ops d ts acc' =
      Inr (acc' @ map (specified_candidate ops) (filter (polygonal_overlap ops) (map (Pair d) ts)))"
    using Cons.prems by (intro taxi_loop_specified) simp
  have tl: "\<forall>d\<in>set ds. \<forall>t\<in>set ts. polygonal_overlap ops (d, t) \<longrightarrow>
             area ops (dz_geometry (snd d)) \<noteq> 0 \<and> area ops (tz_geometry (snd t)) \<noteq> 0"
    using Cons.prems by simp
  have rest: "\<And>acc'. dining_loop ops ds ts acc' =
      Inr (acc' @ map (specified_candidate ops) (filter (polygonal_overlap ops) (List.product ds ts)))"
    by (rule Cons.IH [OF tl])
  show ?case by (simp add: row rest)
qed

lemma compute_spatial_intersections_specified:
  assumes "\<forall>d\<in>set (reproject_dining ops D). \<forall>t\<in>set (reproject_taxi ops T).
             polygonal_overlap ops (d, t) \<longrightarrow>
               area ops (dz_geometry (snd d)) \<noteq> 0 \<and> area ops (tz_geometry (snd t)) \<noteq> 0"
  shows "compute_spatial_intersections ops D T =
           Inr (map (specified_candidate ops)
                 (filter (polygonal_overlap ops)
                   (List.product (reproject_dining ops D) (reproject_taxi ops T))))"
  using dining_loop_specified [OF assms, of "[]"]
  by (simp add: compute_spatial_intersections_def reproject_dining_def reproject_taxi_def)

lemma specified_candidate_ratios:
  "overlap_ratio_dining (specified_candidate ops p) =
      intersection_area_sqm (specified_candidate ops p) / dining_area_sqm (specified_candidate ops p)
   \<and> overlap_ratio_taxi (specified_candidate ops p) =
      intersection_area_sqm (specified_candidate ops p) / taxi_area_sqm (specified_candidate ops p)
   \<and> min_overlap_ratio (specified_candidate ops p) =
      min (overlap_ratio_dining (specified_candidate ops p)) (overlap_ratio_taxi (specified_candidate ops p))
   \<and> dining_area_sqm (specified_candidate ops p) = area ops (dz_geometry (snd (fst p)))
   \<and> taxi_area_sqm (specified_candidate ops p) = area ops (tz_geometry (snd (snd p)))
   \<and> intersection_area_sqm (specified_candidate ops p) =
      area ops (intersection ops (dz_geometry (snd (fst p))) (tz_geometry (snd (snd p))))"
  by (simp add: specified_candidate_def Let_def)

text \<open>
  C2. For all zone tables in which no zone taking part in a polygonal overlap has area zero
  (the ratios divide by the zone areas), the engine returns, in row-major order of the
  pairs, exactly one candidate for every pair \<open>(a, b)\<close> whose geometries intersect in a
  non-empty Polygon or MultiPolygon, and none for any other pair; every emitted candidate
  carries \<open>overlap_ratio_dining = intersection_area / area a\<close>,
  \<open>overlap_ratio_taxi = intersection_area / area b\<close> and the minimum of the two.
\<close>

theorem intersection_engine_emits_polygonal_overlaps:
  assumes "\<forall>d\<in>set (reproject_dining ops D). \<forall>t\<in>set (reproject_taxi ops T).
             polygonal_overlap ops (d, t) \<longrightarrow>
               area ops (dz_geometry (snd d)) \<noteq> 0 \<and> area ops (tz_geometry (snd t)) \<noteq> 0"
  shows "\<exists>cs. compute_spatial_intersections ops D T = Inr cs
           \<and> cs = map (specified_candidate ops)
                    (filter (polygonal_overlap ops)
                      (List.product (reproject_dining ops D) (reproject_taxi ops T)))
           \<and> (\<forall>c\<in>set cs.
                 overlap_ratio_dining c = intersection_area_sqm c / dining_area_sqm c
               \<and> overlap_ratio_taxi c = intersection_area_sqm c / taxi_area_sqm c
               \<and> min_overlap_ratio c = min (overlap_ratio_dining c) (overlap_ratio_taxi c))"
proof -
  let ?cs = "map (specified_candidate ops)
               (filter (polygonal_overlap ops)
                 (List.product (reproject_dining ops D) (reproject_taxi ops T)))"
  have run: "compute_spatial_intersections ops D T = Inr ?cs"
    by (rule compute_spatial_intersections_specified [OF assms])
  have fields: "\<forall>c\<in>set ?cs.
                 overlap_ratio_dining c = intersection_area_sqm c / dining_area_sqm c
               \<and> overlap_ratio_taxi c = intersection_area_sqm c / taxi_area_sqm c
               \<and> min_overlap_ratio c = min (overlap_ratio_dining c) (overlap_ratio_taxi c)"
    using specified_candidate_ratios [of ops] by (auto simp del: filter.simps)
  from run fields show ?thesis by blast
qed

theorem intersection_engine_emits_polygonal_overlaps_witness:
  "compute_spatial_intersections box_ops [scenario_dining, edge_dining] [scenario_taxi]
        = Inr [scenario_candidate]
   \<and> \<not> polygonal_overlap box_ops ((1, edge_dining), (0, scenario_taxi))
   \<and> intersects box_ops (dz_geometry edge_dining) (tz_geometry scenario_taxi)"
proof -
  have h: "\<forall>d\<in>set (reproject_dining box_ops [scenario_dining, edge_dining]).
      \<forall>t\<in>set (reproject_taxi box_ops [scenario_taxi]).
        polygonal_overlap box_ops (d, t) \<longrightarrow>
          area box_ops (dz_geometry (snd d)) \<noteq> 0 \<and> area box_ops (tz_geometry (snd t)) \<noteq> 0"
    by (simp add: reproject_dining_def reproject_taxi_def box_ops_def scenario_dining_def
          edge_dining_def scenario_taxi_def)
  have e: "map (specified_candidate box_ops)
             (filter (polygonal_overlap box_ops)
               (List.product (reproject_dining box_ops [scenario_dining, edge_dining])
                 (reproject_taxi box_ops [scenario_taxi]))) = [scenario_candidate]"
    by (simp add: reproject_dining_def reproject_taxi_def box_ops_def scenario_dining_def
          edge_dining_def scenario_taxi_def polygonal_overlap_def specified_candidate_def
          scenario_candidate_def get_default_def)
  have n: "\<not> polygonal_overlap box_ops ((1, edge_dining), (0, scenario_taxi))
         \<and> intersects box_ops (dz_geometry edge_dining) (tz_geometry scenario_taxi)"
    by (simp add: box_ops_def edge_dining_def scenario_taxi_def polygonal_overlap_def)
  from intersection_engine_emits_polygonal_overlaps [OF h] e
  have "compute_spatial_intersections box_ops [scenario_dining, edge_dining] [scenario_taxi]
          = Inr [scenario_candidate]"
    by auto
  with n show ?thesis by blast
qed

section \<open>Invariants of emitted candidates\<close>





section \<open>Composite scores\<close>

















section \<open>Deduplication consults the single nearest primary neighbour\<close>




















section \<open>The merged table is the primary rows followed by the retained secondary rows\<close>





section \<open>Weighted expansion\<close>

lemma np_round_one: "np_round 1 = 1"
  by (simp add: np_round_def)

lemma np_round_ge_1: assumes "1 \<le> w" shows "1 \<le> np_round w"
proof -
  have "1 \<le> \<lfloor>w\<rfloor>" using assms by (simp add: le_floor_iff)
  then show ?thesis by (auto simp add: np_round_def Let_def)
qed

lemma np_round_le_1: assumes "w \<le> 1" shows "np_round w \<le> 1"
proof -
  have f: "\<lfloor>w\<rfloor> \<le> 1" using floor_mono [OF assms] by simp
  show ?thesis
  proof (cases "\<lfloor>w\<rfloor> = 1")
    case True
    then have "1 \<le> w" by (metis of_int_1 of_int_floor_le)
    with assms have "w = 1" by simp
    then show ?thesis by (simp add: np_round_one)
  next
    case False
    with f have "\<lfloor>w\<rfloor> \<le> 0" by arith
    then show ?thesis by (auto simp add: np_round_def Let_def)
  qed
qed

lemma np_round_max: "max (np_round w) 1 = np_round (max w 1)"
proof (cases "w \<le> 1")
  case True
  then show ?thesis using np_round_le_1 [OF True] by (simp add: max_def np_round_one)
next
  case False
  then have "1 \<le> w" by simp
  from np_round_ge_1 [OF this] False show ?thesis by (simp add: max_def)
qed

lemma np_repeat_counts:
  assumes "\<forall>r\<in>set df. 0 \<le> g r"
  shows "np_repeat (map f df) (map g df) = Inr (concat (map (\<lambda>r. replicate (nat (g r)) (f r)) df))"
proof -
  have "map (\<lambda>(x, n). replicate (nat n) x) (zip (map f df) (map g df))
          = map (\<lambda>r. replicate (nat (g r)) (f r)) df"
    by (induction df) simp_all
  with assms show ?thesis
    by (auto simp add: np_repeat_def)
qed

lemma weights_rounded_max:
  "weights_rounded (map weight df) = map (\<lambda>r. np_round (max (weight r) 1)) df"
  by (simp add: weights_rounded_def Let_def np_round_max comp_def)

lemma prepare_weighted_coordinates_empty:
  "prepare_weighted_coordinates tp [] = Inl ZeroDivisionError"
  by (simp add: prepare_weighted_coordinates_def np_repeat_def weights_rounded_def)

text \<open>
  C6. In every non-empty table, every point with weight \<open>w\<close> is expanded into exactly
  \<open>round (max w 1)\<close> consecutive copies (rounding to nearest, halves to even, as
  \<open>np.round\<close> does) and the function returns; the count is at least 1, and a point with
  weight below 1 contributes exactly one copy.
\<close>

theorem weighted_expansion_copies:
  assumes "df \<noteq> []"
  shows "prepare_weighted_coordinates tp df =
     Inr (concat (map (\<lambda>r. replicate (nat (np_round (max (weight r) 1)))
                              (tp (dropoff_lon r, dropoff_lat r))) df),
          map (\<lambda>r. tp (dropoff_lon r, dropoff_lat r)) df)
   \<and> weights_rounded (map weight df) = map (\<lambda>r. np_round (max (weight r) 1)) df
   \<and> (\<forall>r\<in>set df. 1 \<le> np_round (max (weight r) 1))
   \<and> (\<forall>r\<in>set df. weight r < 1 \<longrightarrow> nat (np_round (max (weight r) 1)) = 1)"
proof -
  have ge: "\<forall>r\<in>set df. 1 \<le> np_round (max (weight r) 1)"
    by (auto intro: np_round_ge_1)
  then have nn: "\<forall>r\<in>set df. 0 \<le> np_round (max (weight r) 1)"
    by force
  have rep: "np_repeat (map (\<lambda>r. tp (dropoff_lon r, dropoff_lat r)) df)
               (map (\<lambda>r. np_round (max (weight r) 1)) df)
             = Inr (concat (map (\<lambda>r. replicate (nat (np_round (max (weight r) 1)))
                              (tp (dropoff_lon r, dropoff_lat r))) df))"
    by (rule np_repeat_counts [OF nn])
  have run: "prepare_weighted_coordinates tp df =
     Inr (concat (map (\<lambda>r. replicate (nat (np_round (max (weight r) 1)))
                              (tp (dropoff_lon r, dropoff_lat r))) df),
          map (\<lambda>r. tp (dropoff_lon r, dropoff_lat r)) df)"
    unfolding prepare_weighted_coordinates_def Let_def weights_rounded_max rep
    using assms by simp
  have one: "\<forall>r\<in>set df. weight r < 1 \<longrightarrow> nat (np_round (max (weight r) 1)) = 1"
    by (simp add: max_def np_round_one)
  from run weights_rounded_max ge one show ?thesis by blast
qed

theorem weighted_expansion_copies_witness:
  "weight (demo_dropoffs ! 0) < 1
   \<and> demo_dropoffs ! 0 \<in> set demo_dropoffs
   \<and> nat (np_round (max (weight (demo_dropoffs ! 0)) 1)) = 1
   \<and> weights_rounded (map weight demo_dropoffs) = [1, 2, 2]
   \<and> prepare_weighted_coordinates (\<lambda>p. p) demo_dropoffs =
       Inr ([(0, 0), (10, 0), (10, 0), (20, 5), (20, 5)], [(0, 0), (10, 0), (20, 5)])"
proof -
  have ne: "demo_dropoffs \<noteq> []" by (simp add: demo_dropoffs_def)
  have w: "weight (demo_dropoffs ! 0) < 1" and m: "demo_dropoffs ! 0 \<in> set demo_dropoffs"
    by (simp_all add: demo_dropoffs_def)
  note inst = weighted_expansion_copies [OF ne, of "\<lambda>p. p"]
  from inst w m have one: "nat (np_round (max (weight (demo_dropoffs ! 0)) 1)) = 1"
    by blast
  have r: "map (\<lambda>r. np_round (max (weight r) 1)) demo_dropoffs = [1, 2, 2]"
    by (simp add: demo_dropoffs_def np_round_def Let_def)
  from inst r have wr: "weights_rounded (map weight demo_dropoffs) = [1, 2, 2]"
    by simp
  have "prepare_weighted_coordinates (\<lambda>p. p) demo_dropoffs =
       Inr ([(0, 0), (10, 0), (10, 0), (20, 5), (20, 5)], [(0, 0), (10, 0), (20, 5)])"
    using inst by (simp add: demo_dropoffs_def np_round_def Let_def eval_nat_numeral)
  with w m one wr show ?thesis by blast
qed

section \<open>Resolving the labels of duplicate groups\<close>

lemma group_majority:
  assumes "g \<noteq> []"
  shows "\<exists>k. np_argmax (snd (np_unique_counts g)) = Inr k
           \<and> smallest_majority g (fst (np_unique_counts g) ! k)"
proof -
  let ?u = "sort (remdups g)"
  let ?c = "map (count_list g) ?u"
  let ?M = "Max (set ?c)"
  let ?k = "length (takeWhile (\<lambda>c. c \<noteq> ?M) ?c)"
  have su: "set ?u = set g" by simp
  have une: "?u \<noteq> []" using assms su by (metis set_empty)
  then have cne: "?c \<noteq> []" by simp
  have "?M \<in> set ?c" using cne by (intro Max_in) auto
  then have ex: "\<exists>x\<in>set ?c. \<not> x \<noteq> ?M" by blast
  have klt: "?k < length ?c" and kat: "?c ! ?k = ?M"
    using takeWhile_stops [OF ex] by simp_all
  have ku: "?k < length ?u" using klt by simp
  have cnt: "count_list g (?u ! ?k) = ?M" using kat ku by simp
  have mem: "?u ! ?k \<in> set g" using nth_mem [OF ku] su by simp
  have top: "\<forall>l'\<in>set g. count_list g l' \<le> count_list g (?u ! ?k)"
  proof
    fix l' assume "l' \<in> set g"
    then have "count_list g l' \<in> set ?c" using su by auto
    then have "count_list g l' \<le> ?M" by (intro Max_ge) auto
    then show "count_list g l' \<le> count_list g (?u ! ?k)" by (simp only: cnt)
  qed
  have tie: "\<forall>l'\<in>set g. count_list g l' = count_list g (?u ! ?k) \<longrightarrow> ?u ! ?k \<le> l'"
  proof (intro ballI impI)
    fix l' assume l': "l' \<in> set g" and eq: "count_list g l' = count_list g (?u ! ?k)"
    from l' su obtain j where j: "j < length ?u" and lj: "?u ! j = l'"
      by (metis in_set_conv_nth)
    have cj: "?c ! j = ?M" using j lj eq cnt by simp
    have "\<not> j < ?k"
    proof
      assume "j < ?k"
      from takeWhile_before [OF this] cj show False by simp
    qed
    then have "?k \<le> j" by simp
    from sorted_nth_mono [OF sorted_sort this j] lj show "?u ! ?k \<le> l'" by simp
  qed
  have "np_argmax (snd (np_unique_counts g)) = Inr ?k"
    using cne by (simp add: np_argmax_def np_unique_counts_def Let_def)
  moreover have "smallest_majority g (fst (np_unique_counts g) ! ?k)"
    using mem top tie by (simp add: smallest_majority_def np_unique_counts_def Let_def)
  ultimately show ?thesis by blast
qed

lemma label_loop_groups:
  assumes "\<forall>w\<in>set ws. 1 \<le> w" and "idx + sum_list (map nat ws) \<le> length labels"
  shows "\<exists>ls. label_loop labels ws idx acc = Inr (acc @ ls)
           \<and> list_all2 smallest_majority (chunks (drop idx labels) (map nat ws)) ls"
  using assms
proof (induction ws arbitrary: idx acc)
  case Nil
  show ?case by simp
next
  case (Cons w ws)
  let ?g = "take (nat w) (drop idx labels)"
  have w1: "1 \<le> w" and rest1: "\<forall>w\<in>set ws. 1 \<le> w" using Cons.prems(1) by simp_all
  have bound: "idx + nat w + sum_list (map nat ws) \<le> length labels"
    using Cons.prems(2) by simp
  have "idx < length labels" using bound w1 by linarith
  then have gne: "?g \<noteq> []" using w1 by simp
  from group_majority [OF gne] obtain k where
    k: "np_argmax (snd (np_unique_counts ?g)) = Inr k"
    and sm: "smallest_majority ?g (fst (np_unique_counts ?g) ! k)"
    by blast
  from Cons.IH [OF rest1 bound, of "acc @ [fst (np_unique_counts ?g) ! k]"] obtain ls where
    run: "label_loop labels ws (idx + nat w) (acc @ [fst (np_unique_counts ?g) ! k])
            = Inr ((acc @ [fst (np_unique_counts ?g) ! k]) @ ls)"
    and all: "list_all2 smallest_majority (chunks (drop (idx + nat w) labels) (map nat ws)) ls"
    by blast
  have dd: "drop (nat w) (drop idx labels) = drop (idx + nat w) labels"
    by (simp add: add.commute)
  have "label_loop labels (w # ws) idx acc = Inr (acc @ (fst (np_unique_counts ?g) ! k) # ls)"
    using k run by (simp add: Let_def)
  moreover have "list_all2 smallest_majority (chunks (drop idx labels) (map nat (w # ws)))
                   ((fst (np_unique_counts ?g) ! k) # ls)"
    using sm all by (simp add: add.commute)
  ultimately show ?case by blast
qed

lemma weights_rounded_ge_1: "\<forall>w\<in>set (weights_rounded weights). 1 \<le> w"
  by (auto simp add: weights_rounded_def Let_def)

lemma length_weights_rounded: "length (weights_rounded weights) = length weights"
  by (simp add: weights_rounded_def Let_def)

text \<open>
  C5, as the code has it. When the label array has one label per expanded copy, the loop
  returns one label per original point, and that label is a most frequent label of the
  point's duplicate group; among labels tied for the largest count it is the numerically
  smallest one (so the noise label \<open>-1\<close> wins every tie it takes part in).
\<close>

theorem majority_label_smallest_on_tie:
  assumes "length labels = sum_list (map nat (weights_rounded weights))"
  shows "\<exists>ls. map_labels_to_original labels weights = Inr ls
           \<and> length ls = length weights
           \<and> list_all2 smallest_majority (chunks labels (map nat (weights_rounded weights))) ls"
proof -
  have bound: "0 + sum_list (map nat (weights_rounded weights)) \<le> length labels"
    using assms by simp
  from label_loop_groups [OF weights_rounded_ge_1 bound, of "[]"] obtain ls where
    run: "label_loop labels (weights_rounded weights) 0 [] = Inr ([] @ ls)"
    and all: "list_all2 smallest_majority (chunks (drop 0 labels) (map nat (weights_rounded weights))) ls"
    by blast
  have len: "length (chunks xs ns) = length ns" for xs :: "int list" and ns
    by (induction ns arbitrary: xs) simp_all
  from all have "length ls = length (chunks labels (map nat (weights_rounded weights)))"
    by (simp add: list_all2_lengthD)
  then have "length ls = length weights"
    by (simp add: len length_weights_rounded)
  with run all show ?thesis
    by (simp add: map_labels_to_original_def)
qed

lemma demo_weights_rounded: "weights_rounded [2, 3] = [2, 3]" "weights_rounded [2] = [2]"
  by (simp_all add: weights_rounded_def np_round_def Let_def)

lemma demo_labels_run: "map_labels_to_original [2, - 1, 5, 5, 5] [2, 3] = Inr [- 1, 5]"
  by (simp add: map_labels_to_original_def demo_weights_rounded np_unique_counts_def
        np_argmax_def Let_def eval_nat_numeral)

theorem majority_label_smallest_on_tie_witness:
  "map_labels_to_original [2, - 1, 5, 5, 5] [2, 3] = Inr [- 1, 5]"
proof -
  have h: "length [2, - 1, 5, 5, 5 :: int] = sum_list (map nat (weights_rounded [2, 3]))"
    by (simp add: demo_weights_rounded)
  have c: "chunks [2, - 1, 5, 5, 5] (map nat (weights_rounded [2, 3])) = [[2, - 1], [5, 5, 5 :: int]]"
    by (simp add: demo_weights_rounded eval_nat_numeral)
  from majority_label_smallest_on_tie [OF h] obtain ls where
    run: "map_labels_to_original [2, - 1, 5, 5, 5] [2, 3] = Inr ls"
    and all: "list_all2 smallest_majority (chunks [2, - 1, 5, 5, 5] (map nat (weights_rounded [2, 3]))) ls"
    by blast
  from all obtain a b where ls: "ls = [a, b]"
    and a: "smallest_majority [2, - 1] a" and b: "smallest_majority [5, 5, 5] b"
    unfolding c by (auto simp add: list_all2_Cons1)
  from a have "a = - 1" by (auto simp add: smallest_majority_def)
  moreover from b have "b = 5" by (auto simp add: smallest_majority_def)
  ultimately show ?thesis using run ls by simp
qed

text \<open>
  The tie-break the specification states does not hold: for one point of weight 2 whose two
  copies are labelled 2 and \<open>-1\<close>, both labels occur once, the first encountered is 2,
  and the code resolves the point to \<open>-1\<close>.
\<close>

theorem tie_first_encountered_counterexample:
  "count_list [2, - 1 :: int] 2 = count_list [2, - 1 :: int] (- 1)
   \<and> first_encountered_majority [2, - 1] = 2
   \<and> map_labels_to_original [2, - 1] [2] = Inr [- 1]
   \<and> map_labels_to_original [2, - 1] [2]
        \<noteq> Inr (map first_encountered_majority (chunks [2, - 1] (map nat (weights_rounded [2]))))"
  by (simp add: map_labels_to_original_def demo_weights_rounded np_unique_counts_def
        np_argmax_def first_encountered_majority_def Let_def eval_nat_numeral)

section \<open>Validation metrics with fewer than two clusters\<close>

lemma cluster_statistics_nonempty:
  assumes "labels \<noteq> []"
  shows "\<exists>m. cluster_statistics s d labels = Inr m
           \<and> silhouette_score m = s \<and> davies_bouldin_index m = d"
  using assms by (simp add: cluster_statistics_def Let_def)

text \<open>
  With an empty label array both variants of \<open>calculate_validation_metrics\<close> raise when
  they compute the clustered percentage. \<open>main()\<close> cannot pass one: \<open>perform_clustering\<close>,
  which produces the labels, divides by \<open>len(labels)\<close> itself.
\<close>

lemma validation_metrics_empty_labels:
  "calculate_validation_metrics sil db [] [] = Inl ZeroDivisionError"
  "calculate_validation_metrics_taxi choice sil db rng [] [] = Inl ZeroDivisionError"
  by (simp_all add: calculate_validation_metrics_def calculate_validation_metrics_taxi_def
        cluster_statistics_def mask_rows_def Let_def)

text \<open>
  C7. For every labelled point set (a non-empty label array with one label per point): if
  after excluding noise points fewer than 2 distinct clusters remain, the validation
  returns normally and reports both the silhouette score and the Davies-Bouldin index as
  absent (\<open>None\<close>), in \<open>calculate_validation_metrics\<close> of the restaurant script, in
  that of the taxi script (which leaves the random generator untouched) and in
  \<open>HDBSCANClustering.validate\<close> (which leaves the clusterer untouched).
\<close>

theorem degraded_validation_reports_absent:
  assumes "labels \<noteq> []" and "length coords = length labels"
    and "length (remdups (mask_rows labels labels)) < 2"
  shows "(\<exists>m. calculate_validation_metrics sil db coords labels = Inr m
             \<and> silhouette_score m = None \<and> davies_bouldin_index m = None)
       \<and> (\<exists>m. calculate_validation_metrics_taxi choice sil db rng coords labels = Inr (m, rng)
             \<and> silhouette_score m = None \<and> davies_bouldin_index m = None)
       \<and> (\<exists>m. validate sil db self coords (Some labels) = Inr (m, self)
             \<and> vs_silhouette_score m = None \<and> vs_davies_bouldin_score m = None)"
proof -
  from cluster_statistics_nonempty [OF assms(1), of None None] obtain m where
    m: "cluster_statistics None None labels = Inr m"
    and ms: "silhouette_score m = None" and md: "davies_bouldin_index m = None"
    by blast
  have a: "calculate_validation_metrics sil db coords labels = Inr m"
    using assms(2,3) m by (simp add: calculate_validation_metrics_def Let_def)
  have b: "calculate_validation_metrics_taxi choice sil db rng coords labels = Inr (m, rng)"
    using assms(2,3) m by (simp add: calculate_validation_metrics_taxi_def Let_def)
  have c: "\<exists>m. validate sil db self coords (Some labels) = Inr (m, self)
             \<and> vs_silhouette_score m = None \<and> vs_davies_bouldin_score m = None"
    using assms(2,3) by (simp add: validate_def Let_def)
  from a b c ms md show ?thesis by blast
qed

theorem degraded_validation_reports_absent_witness:
  "(\<exists>m. calculate_validation_metrics sklearn_silhouette sklearn_davies_bouldin
          [(0, 0), (1, 0), (50, 50)] [0, 0, - 1] = Inr m
        \<and> silhouette_score m = None \<and> davies_bouldin_index m = None)
   \<and> (\<exists>m. calculate_validation_metrics_taxi window_choice sklearn_silhouette
            sklearn_davies_bouldin (5::nat) [(0, 0), (1, 0), (50, 50)] [0, 0, - 1] = Inr (m, 5)
        \<and> silhouette_score m = None \<and> davies_bouldin_index m = None)
   \<and> (\<exists>m. validate sklearn_silhouette sklearn_davies_bouldin
            \<lparr>self_labels = None, self_validation_scores = None\<rparr>
            [(0, 0), (1, 0), (50, 50)] (Some [0, 0, - 1])
          = Inr (m, \<lparr>self_labels = None, self_validation_scores = None\<rparr>)
        \<and> vs_silhouette_score m = None \<and> vs_davies_bouldin_score m = None)"
proof -
  have h1: "[0, 0, - 1 :: int] \<noteq> []" by simp
  have h2: "length [(0, 0), (1, 0), (50, 50) :: real \<times> real] = length [0, 0, - 1 :: int]" by simp
  have h3: "length (remdups (mask_rows [0, 0, - 1 :: int] [0, 0, - 1])) < 2"
    by (simp add: mask_rows_def noise_def)
  show ?thesis
    by (rule degraded_validation_reports_absent [OF h1 h2 h3])
qed

section \<open>Validation metrics on a subsample\<close>

lemma taxi_without_sampling:
  assumes "length (mask_rows coords labels) \<le> 100000
           \<or> length (remdups (mask_rows labels labels)) \<le> 1"
  shows "calculate_validation_metrics_taxi choice sil db rng coords labels
           = map_sum id (\<lambda>m. (m, rng)) (calculate_validation_metrics sil db coords labels)"
  using assms
  by (auto simp add: calculate_validation_metrics_taxi_def calculate_validation_metrics_def
        Let_def split: sum.splits)

lemma taxi_with_sampling:
  assumes len: "length coords = length labels"
    and big: "100000 < length (mask_rows coords labels)"
    and two: "1 < length (remdups (mask_rows labels labels))"
    and ok: "\<forall>i\<in>set (fst (choice rng (length (mask_rows coords labels)) 100000)).
               i < length (mask_rows coords labels)"
    and s: "sil (map (\<lambda>i. mask_rows coords labels ! i)
                   (fst (choice rng (length (mask_rows coords labels)) 100000)))
                (map (\<lambda>i. mask_rows labels labels ! i)
                   (fst (choice rng (length (mask_rows coords labels)) 100000))) = Inr sv"
    and d: "db (map (\<lambda>i. mask_rows coords labels ! i)
                  (fst (choice rng (length (mask_rows coords labels)) 100000)))
               (map (\<lambda>i. mask_rows labels labels ! i)
                  (fst (choice rng (length (mask_rows coords labels)) 100000))) = Inr dv"
  shows "\<exists>m. calculate_validation_metrics_taxi choice sil db rng coords labels
               = Inr (m, snd (choice rng (length (mask_rows coords labels)) 100000))
           \<and> silhouette_score m = Some sv \<and> davies_bouldin_index m = Some dv"
proof -
  have "mask_rows labels labels \<noteq> []" using two by auto
  then have ne: "labels \<noteq> []" by (auto simp add: mask_rows_def)
  from cluster_statistics_nonempty [OF ne, of "Some sv" "Some dv"] obtain m where
    m: "cluster_statistics (Some sv) (Some dv) labels = Inr m"
    and ms: "silhouette_score m = Some sv" and md: "davies_bouldin_index m = Some dv"
    by blast
  have inrange: "\<not> (\<exists>i\<in>set (fst (choice rng (length (mask_rows coords labels)) 100000)).
                      length (mask_rows coords labels) \<le> i)"
    using ok by (simp add: not_le)
  have "calculate_validation_metrics_taxi choice sil db rng coords labels
          = Inr (m, snd (choice rng (length (mask_rows coords labels)) 100000))"
    unfolding calculate_validation_metrics_taxi_def Let_def
    using len big two inrange m s d by simp
  with ms md show ?thesis by blast
qed

lemma mask_rows_no_noise:
  assumes "noise \<notin> set labels" and "length rows = length labels"
  shows "mask_rows rows labels = rows"
proof -
  have "filter (\<lambda>(r, l). l \<noteq> noise) (zip rows labels) = zip rows labels"
    using assms(1) by (auto simp add: filter_id_conv dest: set_zip_rightD)
  then show ?thesis using assms(2) by (simp add: mask_rows_def)
qed

lemma map_nth_window:
  assumes "i + k \<le> length xs"
  shows "map (\<lambda>j. xs ! j) [i..<i + k] = take k (drop i xs)"
  using assms by (auto simp add: list_eq_iff_nth_eq)

lemma remdups_replicate_append:
  assumes "x \<notin> set ys"
  shows "remdups (replicate (Suc n) x @ ys) = x # remdups ys"
  using assms by (induction n) simp_all

lemma remdups_block:
  assumes "x \<notin> set ys" "0 < n"
  shows "remdups (replicate n x @ ys) = x # remdups ys"
  using remdups_replicate_append [OF assms(1), of "n - 1"] assms(2) by simp

lemma davies_bouldin_returns:
  assumes "valid_number_of_labels labels"
  shows "\<exists>d. sklearn_davies_bouldin X labels = Inr d"
  using assms by (simp add: sklearn_davies_bouldin_def Let_def)

lemma big_lengths: "length big_labels = 100001" "length big_coords = 100001"
  by (simp_all add: big_labels_def big_coords_def)

lemma big_no_noise: "noise \<notin> set big_labels"
  by (simp add: big_labels_def noise_def)

lemma big_masks: "mask_rows big_coords big_labels = big_coords"
  "mask_rows big_labels big_labels = big_labels"
  by (rule mask_rows_no_noise; simp add: big_no_noise big_lengths)+

lemma big_two: "length (remdups big_labels) = 2"
  by (simp add: big_labels_def remdups_block)

lemma big_windows:
  "map (\<lambda>i. big_coords ! i) [0..<0 + 100000] = replicate 99998 (0, 0) @ [(1, 0), (1, 0)]"
  "map (\<lambda>i. big_labels ! i) [0..<0 + 100000] = replicate 99998 0 @ [1, 1]"
  "map (\<lambda>i. big_coords ! i) [1..<1 + 100000] = replicate 99997 (0, 0) @ [(1, 0), (1, 0), (3, 0)]"
  "map (\<lambda>i. big_labels ! i) [1..<1 + 100000] = replicate 99997 0 @ [1, 1, 1]"
  by (subst map_nth_window; simp add: big_coords_def big_labels_def)+

lemma sqrt_9: "sqrt 9 = 3"
  by (rule real_sqrt_unique; simp)

lemma window_zips:
  "zip (replicate 99998 (0, 0) @ [(1, 0), (1, 0)]) (replicate 99998 0 @ [1, 1]) = first_window"
  "zip (replicate 99997 (0, 0) @ [(1, 0), (1, 0), (3, 0)]) (replicate 99997 0 @ [1, 1, 1])
     = second_window"
  by (simp_all add: first_window_def second_window_def)

lemma window_labels:
  "remdups (map snd first_window) = [0, 1]"
  "remdups (map snd second_window) = [0, 1]"
  unfolding first_window_def second_window_def by (simp_all add: remdups_block)

lemma window_valid:
  "valid_number_of_labels (replicate 99998 0 @ [1, 1])"
  "valid_number_of_labels (replicate 99997 0 @ [1, 1, 1])"
  by (simp_all add: valid_number_of_labels_def remdups_block)

lemma window_sorted:
  "sort (remdups (replicate 99998 0 @ [1, 1 :: int])) = [0, 1]"
  "sort (remdups (replicate 99997 0 @ [1, 1, 1 :: int])) = [0, 1]"
  by (simp_all add: remdups_block)

lemma window_clusters:
  "cluster_points first_window 0 = replicate 99998 (0, 0)"
  "cluster_points first_window 1 = [(1, 0), (1, 0)]"
  "cluster_points second_window 0 = replicate 99997 (0, 0)"
  "cluster_points second_window 1 = [(1, 0), (1, 0), (3, 0)]"
  by (simp_all add: first_window_def second_window_def cluster_points_def filter_replicate)

subsection \<open>Silhouette of the two samples\<close>

lemma first_window_coefficients:
  "silhouette_sample first_window ((0, 0), 0) = 1"
  "silhouette_sample first_window ((1, 0), 1) = 1"
  by (simp add: silhouette_sample_def window_labels Let_def,
      simp add: first_window_def cluster_points_def mean_distance_def euclid_def
        filter_replicate sum_list_replicate)+

lemma second_window_coefficients:
  "silhouette_sample second_window ((0, 0), 0) = 1"
  "silhouette_sample second_window ((1, 0), 1) = 0"
  "silhouette_sample second_window ((3, 0), 1) = 1 / 3"
  by (simp add: silhouette_sample_def window_labels Let_def,
      simp add: second_window_def cluster_points_def mean_distance_def euclid_def
        filter_replicate sum_list_replicate sqrt_9)+

lemma first_window_sum: "sum_list (map (silhouette_sample first_window) first_window) = 100000"
proof -
  have "map (silhouette_sample first_window) first_window = replicate 99998 1 @ [1, 1]"
    by (subst (2) first_window_def) (simp add: first_window_coefficients)
  then show ?thesis by (simp add: sum_list_replicate)
qed

lemma second_window_sum:
  "sum_list (map (silhouette_sample second_window) second_window) = 99997 + 1 / 3"
proof -
  have "map (silhouette_sample second_window) second_window = replicate 99997 1 @ [0, 0, 1 / 3]"
    by (subst (2) second_window_def) (simp add: second_window_coefficients)
  then show ?thesis by (simp add: sum_list_replicate)
qed

lemma first_window_silhouette:
  "sklearn_silhouette (replicate 99998 (0, 0) @ [(1, 0), (1, 0)]) (replicate 99998 0 @ [1, 1])
     = Inr 1"
  by (simp only: sklearn_silhouette_def window_valid window_zips first_window_sum) simp

lemma second_window_silhouette:
  "sklearn_silhouette (replicate 99997 (0, 0) @ [(1, 0), (1, 0), (3, 0)])
     (replicate 99997 0 @ [1, 1, 1]) = Inr (37499 / 37500)"
  by (simp only: sklearn_silhouette_def window_valid window_zips second_window_sum) simp

subsection \<open>Davies-Bouldin index of the two samples\<close>

lemma centroid_origin: "0 < n \<Longrightarrow> centroid (replicate n (0, 0)) = (0, 0)"
  by (simp add: centroid_def sum_list_replicate)

lemma spread_origin: "mean_distance (0, 0) (replicate n (0, 0)) = 0"
  by (simp add: mean_distance_def euclid_def sum_list_replicate)

lemma window_centroids:
  "centroid [(1, 0), (1, 0)] = (1, 0)"
  "centroid [(1, 0), (1, 0), (3, 0)] = (5 / 3, 0)"
  by (simp_all add: centroid_def)

lemma window_spreads:
  "mean_distance (1, 0) [(1, 0), (1, 0)] = 0"
  "mean_distance (5 / 3, 0) [(1, 0), (1, 0), (3, 0)] = 8 / 9"
  by (simp_all add: mean_distance_def euclid_def power2_eq_square real_sqrt_mult
        real_sqrt_divide abs_if)

lemma first_window_davies_bouldin:
  "sklearn_davies_bouldin (replicate 99998 (0, 0) @ [(1, 0), (1, 0)])
     (replicate 99998 0 @ [1, 1]) = Inr 0"
  by (simp only: sklearn_davies_bouldin_def window_valid window_zips window_sorted Let_def)
     (simp add: window_clusters centroid_origin spread_origin window_centroids window_spreads)

lemma second_window_davies_bouldin:
  "sklearn_davies_bouldin (replicate 99997 (0, 0) @ [(1, 0), (1, 0), (3, 0)])
     (replicate 99997 0 @ [1, 1, 1]) = Inr (8 / 15)"
  apply (simp only: sklearn_davies_bouldin_def window_valid window_zips window_sorted Let_def)
  apply (simp add: window_clusters centroid_origin spread_origin window_centroids window_spreads)
  apply (simp add: euclid_def upt_rec [where i = 0] upt_rec [where i = 1])
  done

subsection \<open>Two runs on the same input\<close>

lemma big_samples:
  "map (\<lambda>i. mask_rows big_coords big_labels ! i)
     (fst (window_choice 0 (length (mask_rows big_coords big_labels)) 100000))
     = replicate 99998 (0, 0) @ [(1, 0), (1, 0)]"
  "map (\<lambda>i. mask_rows big_labels big_labels ! i)
     (fst (window_choice 0 (length (mask_rows big_coords big_labels)) 100000))
     = replicate 99998 0 @ [1, 1]"
  "map (\<lambda>i. mask_rows big_coords big_labels ! i)
     (fst (window_choice 1 (length (mask_rows big_coords big_labels)) 100000))
     = replicate 99997 (0, 0) @ [(1, 0), (1, 0), (3, 0)]"
  "map (\<lambda>i. mask_rows big_labels big_labels ! i)
     (fst (window_choice 1 (length (mask_rows big_coords big_labels)) 100000))
     = replicate 99997 0 @ [1, 1, 1]"
  by (simp_all only: big_masks window_choice_def fst_conv big_windows)

lemma big_in_range:
  "\<forall>i\<in>set (fst (window_choice 0 (length (mask_rows big_coords big_labels)) 100000)).
     i < length (mask_rows big_coords big_labels)"
  "\<forall>i\<in>set (fst (window_choice 1 (length (mask_rows big_coords big_labels)) 100000)).
     i < length (mask_rows big_coords big_labels)"
  by (simp_all add: big_masks big_lengths window_choice_def)

lemma big_is_large:
  "length big_coords = length big_labels"
  "100000 < length (mask_rows big_coords big_labels)"
  "1 < length (remdups (mask_rows big_labels big_labels))"
  by (simp_all add: big_masks big_lengths big_two)

lemma big_next_state:
  "snd (window_choice 0 (length (mask_rows big_coords big_labels)) 100000) = 1"
  "snd (window_choice 1 (length (mask_rows big_coords big_labels)) 100000) = 2"
  by (simp_all add: window_choice_def)

lemma big_scores:
  "sklearn_silhouette (map (\<lambda>i. mask_rows big_coords big_labels ! i)
      (fst (window_choice 0 (length (mask_rows big_coords big_labels)) 100000)))
     (map (\<lambda>i. mask_rows big_labels big_labels ! i)
      (fst (window_choice 0 (length (mask_rows big_coords big_labels)) 100000))) = Inr 1"
  "sklearn_davies_bouldin (map (\<lambda>i. mask_rows big_coords big_labels ! i)
      (fst (window_choice 0 (length (mask_rows big_coords big_labels)) 100000)))
     (map (\<lambda>i. mask_rows big_labels big_labels ! i)
      (fst (window_choice 0 (length (mask_rows big_coords big_labels)) 100000))) = Inr 0"
  "sklearn_silhouette (map (\<lambda>i. mask_rows big_coords big_labels ! i)
      (fst (window_choice 1 (length (mask_rows big_coords big_labels)) 100000)))
     (map (\<lambda>i. mask_rows big_labels big_labels ! i)
      (fst (window_choice 1 (length (mask_rows big_coords big_labels)) 100000)))
     = Inr (37499 / 37500)"
  "sklearn_davies_bouldin (map (\<lambda>i. mask_rows big_coords big_labels ! i)
      (fst (window_choice 1 (length (mask_rows big_coords big_labels)) 100000)))
     (map (\<lambda>i. mask_rows big_labels big_labels ! i)
      (fst (window_choice 1 (length (mask_rows big_coords big_labels)) 100000)))
     = Inr (8 / 15)"
  by (simp_all only: big_samples first_window_silhouette first_window_davies_bouldin
        second_window_silhouette second_window_davies_bouldin)

text \<open>
  C9, as the code has it. The taxi variant of \<open>calculate_validation_metrics\<close> samples
  only when more than 100000 non-noise points in at least two clusters remain. With at
  most 100000 such points, or fewer than two clusters, it returns what the variant
  without sampling returns and leaves the random generator as it was. Otherwise it draws
  100000 positions with \<open>np.random.choice\<close> from the generator it is called with, which
  it does not seed: when the positions are in range and the two scores of the rows at the
  drawn positions are \<open>sv\<close> and \<open>dv\<close>, it reports exactly \<open>sv\<close> as the silhouette score
  and \<open>dv\<close> as the Davies-Bouldin index, and leaves the generator in the state after the
  draw. The reported values are those of the drawn sample; nothing makes two draws equal.
\<close>

theorem validation_subsample_follows_generator:
  "(length (mask_rows coords labels) \<le> 100000
      \<or> length (remdups (mask_rows labels labels)) \<le> 1
    \<longrightarrow> calculate_validation_metrics_taxi choice sil db rng coords labels
          = map_sum id (\<lambda>m. (m, rng)) (calculate_validation_metrics sil db coords labels))
   \<and> (length coords = length labels
      \<and> 100000 < length (mask_rows coords labels)
      \<and> 1 < length (remdups (mask_rows labels labels))
      \<and> (\<forall>i\<in>set (fst (choice rng (length (mask_rows coords labels)) 100000)).
            i < length (mask_rows coords labels))
      \<and> sil (map (\<lambda>i. mask_rows coords labels ! i)
                (fst (choice rng (length (mask_rows coords labels)) 100000)))
             (map (\<lambda>i. mask_rows labels labels ! i)
                (fst (choice rng (length (mask_rows coords labels)) 100000))) = Inr sv
      \<and> db (map (\<lambda>i. mask_rows coords labels ! i)
               (fst (choice rng (length (mask_rows coords labels)) 100000)))
            (map (\<lambda>i. mask_rows labels labels ! i)
               (fst (choice rng (length (mask_rows coords labels)) 100000))) = Inr dv
    \<longrightarrow> (\<exists>m. calculate_validation_metrics_taxi choice sil db rng coords labels
                 = Inr (m, snd (choice rng (length (mask_rows coords labels)) 100000))
             \<and> silhouette_score m = Some sv \<and> davies_bouldin_index m = Some dv))"
proof (intro conjI impI)
  assume "length (mask_rows coords labels) \<le> 100000
            \<or> length (remdups (mask_rows labels labels)) \<le> 1"
  then show "calculate_validation_metrics_taxi choice sil db rng coords labels
          = map_sum id (\<lambda>m. (m, rng)) (calculate_validation_metrics sil db coords labels)"
    by (rule taxi_without_sampling)
next
  assume a: "length coords = length labels
      \<and> 100000 < length (mask_rows coords labels)
      \<and> 1 < length (remdups (mask_rows labels labels))
      \<and> (\<forall>i\<in>set (fst (choice rng (length (mask_rows coords labels)) 100000)).
            i < length (mask_rows coords labels))
      \<and> sil (map (\<lambda>i. mask_rows coords labels ! i)
                (fst (choice rng (length (mask_rows coords labels)) 100000)))
             (map (\<lambda>i. mask_rows labels labels ! i)
                (fst (choice rng (length (mask_rows coords labels)) 100000))) = Inr sv
      \<and> db (map (\<lambda>i. mask_rows coords labels ! i)
               (fst (choice rng (length (mask_rows coords labels)) 100000)))
            (map (\<lambda>i. mask_rows labels labels ! i)
               (fst (choice rng (length (mask_rows coords labels)) 100000))) = Inr dv"
  show "\<exists>m. calculate_validation_metrics_taxi choice sil db rng coords labels
                 = Inr (m, snd (choice rng (length (mask_rows coords labels)) 100000))
             \<and> silhouette_score m = Some sv \<and> davies_bouldin_index m = Some dv"
    by (rule taxi_with_sampling) (use a in blast)+
qed

theorem validation_subsample_follows_generator_witness:
  "calculate_validation_metrics_taxi window_choice sklearn_silhouette sklearn_davies_bouldin
      (7::nat) [(0, 0), (0, 0), (1, 0), (1, 0), (50, 50)] [0, 0, 1, 1, - 1]
     = map_sum id (\<lambda>m. (m, 7))
         (calculate_validation_metrics sklearn_silhouette sklearn_davies_bouldin
            [(0, 0), (0, 0), (1, 0), (1, 0), (50, 50)] [0, 0, 1, 1, - 1])
   \<and> (\<exists>m. calculate_validation_metrics_taxi window_choice sklearn_silhouette
             sklearn_davies_bouldin 0 big_coords big_labels = Inr (m, 1)
          \<and> silhouette_score m = Some 1 \<and> davies_bouldin_index m = Some 0)"
proof -
  have small: "length (mask_rows [(0, 0), (0, 0), (1, 0), (1, 0), (50, 50) :: real \<times> real]
                  [0, 0, 1, 1, - 1]) \<le> 100000
               \<or> length (remdups (mask_rows [0, 0, 1, 1, - 1 :: int] [0, 0, 1, 1, - 1])) \<le> 1"
    by (simp add: mask_rows_def noise_def)
  have large: "length big_coords = length big_labels
      \<and> 100000 < length (mask_rows big_coords big_labels)
      \<and> 1 < length (remdups (mask_rows big_labels big_labels))
      \<and> (\<forall>i\<in>set (fst (window_choice 0 (length (mask_rows big_coords big_labels)) 100000)).
            i < length (mask_rows big_coords big_labels))
      \<and> sklearn_silhouette (map (\<lambda>i. mask_rows big_coords big_labels ! i)
                (fst (window_choice 0 (length (mask_rows big_coords big_labels)) 100000)))
             (map (\<lambda>i. mask_rows big_labels big_labels ! i)
                (fst (window_choice 0 (length (mask_rows big_coords big_labels)) 100000))) = Inr 1
      \<and> sklearn_davies_bouldin (map (\<lambda>i. mask_rows big_coords big_labels ! i)
               (fst (window_choice 0 (length (mask_rows big_coords big_labels)) 100000)))
            (map (\<lambda>i. mask_rows big_labels big_labels ! i)
               (fst (window_choice 0 (length (mask_rows big_coords big_labels)) 100000))) = Inr 0"
    by (intro conjI big_is_large big_in_range(1) big_scores(1) big_scores(2))
  from validation_subsample_follows_generator
         [where choice = window_choice and sil = sklearn_silhouette
            and db = sklearn_davies_bouldin and rng = 7
            and coords = "[(0, 0), (0, 0), (1, 0), (1, 0), (50, 50)]"
            and labels = "[0, 0, 1, 1, - 1]"]
       small
  have one: "calculate_validation_metrics_taxi window_choice sklearn_silhouette
      sklearn_davies_bouldin (7::nat) [(0, 0), (0, 0), (1, 0), (1, 0), (50, 50)] [0, 0, 1, 1, - 1]
     = map_sum id (\<lambda>m. (m, 7))
         (calculate_validation_metrics sklearn_silhouette sklearn_davies_bouldin
            [(0, 0), (0, 0), (1, 0), (1, 0), (50, 50)] [0, 0, 1, 1, - 1])"
    by blast
  from validation_subsample_follows_generator
         [where choice = window_choice and sil = sklearn_silhouette
            and db = sklearn_davies_bouldin and rng = 0
            and coords = big_coords and labels = big_labels and sv = 1 and dv = 0]
       large
  have "\<exists>m. calculate_validation_metrics_taxi window_choice sklearn_silhouette
             sklearn_davies_bouldin 0 big_coords big_labels
               = Inr (m, snd (window_choice 0 (length (mask_rows big_coords big_labels)) 100000))
          \<and> silhouette_score m = Some 1 \<and> davies_bouldin_index m = Some 0"
    by blast
  then have two: "\<exists>m. calculate_validation_metrics_taxi window_choice sklearn_silhouette
             sklearn_davies_bouldin 0 big_coords big_labels = Inr (m, 1)
          \<and> silhouette_score m = Some 1 \<and> davies_bouldin_index m = Some 0"
    by (simp only: big_next_state)
  from one two show ?thesis by (rule conjI)
qed

text \<open>
  Two runs on the same coordinates and labels do not produce identical values. The input
  has 100001 clustered points in two clusters. A run that draws the positions 0 to 99999
  scores a sample in which every point coincides with the rest of its cluster: silhouette
  1, Davies-Bouldin index 0. It leaves the generator in another state, and the next run,
  on the same input, draws the positions 1 to 100000: silhouette \<open>37499 / 37500\<close>,
  Davies-Bouldin index \<open>8 / 15\<close>.
\<close>

theorem two_validation_runs_differ_counterexample:
  "map_sum id (\<lambda>(m, g). (silhouette_score m, davies_bouldin_index m, g))
      (calculate_validation_metrics_taxi window_choice sklearn_silhouette sklearn_davies_bouldin
         0 big_coords big_labels) = Inr (Some 1, Some 0, 1)
   \<and> map_sum id (\<lambda>(m, g). (silhouette_score m, davies_bouldin_index m, g))
      (calculate_validation_metrics_taxi window_choice sklearn_silhouette sklearn_davies_bouldin
         1 big_coords big_labels) = Inr (Some (37499 / 37500), Some (8 / 15), 2)
   \<and> (37499 / 37500 :: real) \<noteq> 1 \<and> (8 / 15 :: real) \<noteq> 0"
proof -
  from taxi_with_sampling
         [where choice = window_choice and sil = sklearn_silhouette
            and db = sklearn_davies_bouldin and rng = 0
            and coords = big_coords and labels = big_labels and sv = 1 and dv = 0,
          OF big_is_large big_in_range(1) big_scores(1) big_scores(2)]
  have r0: "map_sum id (\<lambda>(m, g). (silhouette_score m, davies_bouldin_index m, g))
      (calculate_validation_metrics_taxi window_choice sklearn_silhouette sklearn_davies_bouldin
         0 big_coords big_labels) = Inr (Some 1, Some 0, 1)"
    by (auto simp only: big_next_state map_sum.simps prod.case)
  from taxi_with_sampling
         [where choice = window_choice and sil = sklearn_silhouette
            and db = sklearn_davies_bouldin and rng = 1
            and coords = big_coords and labels = big_labels
            and sv = "37499 / 37500" and dv = "8 / 15",
          OF big_is_large big_in_range(2) big_scores(3) big_scores(4)]
  have r1: "map_sum id (\<lambda>(m, g). (silhouette_score m, davies_bouldin_index m, g))
      (calculate_validation_metrics_taxi window_choice sklearn_silhouette sklearn_davies_bouldin
         1 big_coords big_labels) = Inr (Some (37499 / 37500), Some (8 / 15), 2)"
    by (auto simp only: big_next_state map_sum.simps prod.case)
  from r0 r1 show ?thesis by simp
qed
end
